theory Spec2Isabelle
  imports Complex_Main
begin

section \<open>Python values\<close>

text \<open>
  Both services exchange JSON. A parsed JSON document is a Python value: \<open>None\<close>, a bool,
  an int (unbounded), a float, a str, a list or a dict. A Python \<open>str\<close> is modelled as a
  list of characters with code points below 256; a dict as an association list read with
  \<open>map_of\<close>. A float is a rational or one of the three special values that Python's
  \<open>json\<close> module accepts.
\<close>

datatype pyfloat = Finite rat | PosInf | NegInf | NaN

datatype json =
    JNull
  | JBool bool
  | JInt int
  | JFloat pyfloat
  | JStr string
  | JList "json list"
  | JObj "(string \<times> json) list"

text \<open>
  Exceptions are values: a class and the text that \<open>str(e)\<close> gives. The classes are those
  the two services can meet: the built-in ones raised by attribute access and \<open>int()\<close>, and
  the hierarchy of \<open>requests.exceptions\<close>.
\<close>

datatype exn_class =
    AttributeError | TypeError | ValueError | OverflowError
  | RequestException | Timeout | ConnectTimeout | ReadTimeout
  | ConnectionError | ProxyError | SSLError
  | HTTPError | TooManyRedirects | InvalidJSONError | JSONDecodeError

datatype exn = Exn (cls: exn_class) (str: string)

text \<open>\<open>isinstance(e, requests.exceptions.Timeout)\<close>: \<open>ConnectTimeout\<close> inherits from both
  \<open>ConnectionError\<close> and \<open>Timeout\<close>.\<close>

fun is_Timeout :: "exn_class \<Rightarrow> bool" where
  "is_Timeout Timeout = True"
| "is_Timeout ConnectTimeout = True"
| "is_Timeout ReadTimeout = True"
| "is_Timeout _ = False"

fun is_ConnectionError :: "exn_class \<Rightarrow> bool" where
  "is_ConnectionError ConnectionError = True"
| "is_ConnectionError ConnectTimeout = True"
| "is_ConnectionError ProxyError = True"
| "is_ConnectionError SSLError = True"
| "is_ConnectionError _ = False"

fun is_RequestException :: "exn_class \<Rightarrow> bool" where
  "is_RequestException AttributeError = False"
| "is_RequestException TypeError = False"
| "is_RequestException ValueError = False"
| "is_RequestException OverflowError = False"
| "is_RequestException _ = True"

text \<open>Truth value of a Python value, as \<open>or\<close> and \<open>if\<close> test it.\<close>

fun truthy :: "json \<Rightarrow> bool" where
  "truthy JNull = False"
| "truthy (JBool b) = b"
| "truthy (JInt i) = (i \<noteq> 0)"
| "truthy (JFloat f) = (f \<noteq> Finite 0)"
| "truthy (JStr s) = (s \<noteq> [])"
| "truthy (JList xs) = (xs \<noteq> [])"
| "truthy (JObj kvs) = (kvs \<noteq> [])"

text \<open>\<open>a or b\<close>\<close>

definition py_or :: "json \<Rightarrow> json \<Rightarrow> json" where
  "py_or a b = (if truthy a then a else b)"

text \<open>\<open>d.get(k)\<close>: only a dict has the method; a missing key gives \<open>None\<close>.\<close>

fun dict_get :: "json \<Rightarrow> string \<Rightarrow> exn + json" where
  "dict_get (JObj kvs) k = Inr (case map_of kvs k of None \<Rightarrow> JNull | Some v \<Rightarrow> v)"
| "dict_get _ k = Inl (Exn AttributeError ''object has no attribute get'')"

text \<open>Whitespace of \<open>str.strip()\<close> among the code points below 256.\<close>

definition is_space :: "char \<Rightarrow> bool" where
  "is_space c = (let n = (of_char c :: nat) in
     (9 \<le> n \<and> n \<le> 13) \<or> (28 \<le> n \<and> n \<le> 32) \<or> n = 133 \<or> n = 160)"

definition strip :: "string \<Rightarrow> string" where
  "strip s = rev (dropWhile is_space (rev (dropWhile is_space s)))"

text \<open>\<open>v.strip()\<close>: only a str has the method.\<close>

fun strip_method :: "json \<Rightarrow> exn + string" where
  "strip_method (JStr s) = Inr (strip s)"
| "strip_method _ = Inl (Exn AttributeError ''object has no attribute strip'')"

text \<open>
  \<open>int(v)\<close>. On a str: surrounding whitespace is dropped, one sign is allowed, then decimal
  digits, with single underscores between digits. The whitespace that \<open>int()\<close> drops is
  narrower than that of \<open>str.strip()\<close>: the separators U+001C to U+001F are kept, and make
  the str invalid. A str with more than 4300 digits is refused (the interpreter's default
  limit, which neither service changes). On a float: truncation towards zero; infinities
  and NaN raise. \<open>None\<close>, lists and dicts raise \<open>TypeError\<close>.
\<close>

definition is_int_space :: "char \<Rightarrow> bool" where
  "is_int_space c = (let n = (of_char c :: nat) in
     (9 \<le> n \<and> n \<le> 13) \<or> n = 32 \<or> n = 133 \<or> n = 160)"

definition int_strip :: "string \<Rightarrow> string" where
  "int_strip s = rev (dropWhile is_int_space (rev (dropWhile is_int_space s)))"

definition max_str_digits :: nat where
  "max_str_digits = 4300"

definition is_digit :: "char \<Rightarrow> bool" where
  "is_digit c = (let n = (of_char c :: nat) in 48 \<le> n \<and> n \<le> 57)"

definition digit_val :: "char \<Rightarrow> int" where
  "digit_val c = int (of_char c) - 48"

fun parse_digits :: "bool \<Rightarrow> int \<Rightarrow> string \<Rightarrow> int option" where
  "parse_digits prev acc [] = (if prev then Some acc else None)"
| "parse_digits prev acc (c # cs) =
     (if is_digit c then parse_digits True (10 * acc + digit_val c) cs
      else if c = CHR ''_'' \<and> prev then parse_digits False acc cs
      else None)"

definition int_of_str :: "string \<Rightarrow> int option" where
  "int_of_str s =
     (case int_strip s of
        [] \<Rightarrow> None
      | c # cs \<Rightarrow>
          let digits = (if c = CHR ''+'' \<or> c = CHR ''-'' then cs else c # cs)
          in if max_str_digits < length (filter is_digit digits) then None
             else if c = CHR ''-'' then map_option uminus (parse_digits False 0 digits)
             else parse_digits False 0 digits)"

definition trunc :: "rat \<Rightarrow> int" where
  "trunc q = (if 0 \<le> q then \<lfloor>q\<rfloor> else - \<lfloor>- q\<rfloor>)"

fun py_int :: "json \<Rightarrow> exn + int" where
  "py_int JNull = Inl (Exn TypeError ''int() argument must be a string or a number'')"
| "py_int (JBool b) = Inr (if b then 1 else 0)"
| "py_int (JInt i) = Inr i"
| "py_int (JFloat (Finite q)) = Inr (trunc q)"
| "py_int (JFloat NaN) = Inl (Exn ValueError ''cannot convert float NaN to integer'')"
| "py_int (JFloat _) = Inl (Exn OverflowError ''cannot convert float infinity to integer'')"
| "py_int (JStr s) =
     (case int_of_str s of
        None \<Rightarrow> Inl (Exn ValueError ''invalid literal for int() with base 10'')
      | Some i \<Rightarrow> Inr i)"
| "py_int (JList _) = Inl (Exn TypeError ''int() argument must be a string or a number'')"
| "py_int (JObj _) = Inl (Exn TypeError ''int() argument must be a string or a number'')"

text \<open>
  \<open>try: delay_ms = int(delay_ms)  except Exception: delay_ms = 0\<close>. Every exception of
  \<open>int()\<close> is an \<open>Exception\<close>, so the handler catches all of them.
\<close>

definition int_or_zero :: "json \<Rightarrow> int" where
  "int_or_zero v = (case py_int v of Inl e \<Rightarrow> 0 | Inr i \<Rightarrow> i)"

text \<open>Sequencing of steps that can raise: the first exception ends the sequence.\<close>

definition and_then :: "exn + 'a \<Rightarrow> ('a \<Rightarrow> exn + 'b) \<Rightarrow> exn + 'b" where
  "and_then m f = (case m of Inl e \<Rightarrow> Inl e | Inr x \<Rightarrow> f x)"

section \<open>What a run does besides returning\<close>

text \<open>
  The observable effects of a handler, in order: an outbound \<open>requests.post\<close> (url, the
  \<open>X-Request-ID\<close> header, the JSON payload), a line printed by \<open>log_json\<close> (level and
  payload; the wall-clock field \<open>ts\<close> is left out), and a \<open>time.sleep\<close> that was accepted
  (seconds).
\<close>

datatype event =
    Post string string json
  | Log string "(string \<times> json) list"
  | Sleep rat

text \<open>The process state of a service: its \<open>METRICS\<close> dict and what it has done so far.\<close>

record 'm state =
  METRICS :: 'm
  trace :: "event list"

definition log_json :: "string \<Rightarrow> (string \<times> json) list \<Rightarrow> 'm state \<Rightarrow> 'm state" where
  "log_json level payload st = st\<lparr>trace := trace st @ [Log level payload]\<rparr>"

definition sleep :: "rat \<Rightarrow> 'm state \<Rightarrow> 'm state" where
  "sleep secs st = st\<lparr>trace := trace st @ [Sleep secs]\<rparr>"

text \<open>An inbound request as Flask presents it: \<open>get_json(silent=True)\<close> is \<open>None\<close> for a
  missing or non-JSON body; the header and the query argument are absent or a str.\<close>

record http_request =
  request_method :: string
  request_path :: string
  x_request_id :: "string option"
  get_json :: json
  args_delay_ms :: "string option"

text \<open>\<open>request.headers.get("X-Request-ID", "")\<close> and \<open>request.args.get("delay_ms")\<close>\<close>

definition header_or_empty :: "string option \<Rightarrow> string" where
  "header_or_empty h = (case h of None \<Rightarrow> [] | Some s \<Rightarrow> s)"

definition str_or_None :: "string option \<Rightarrow> json" where
  "str_or_None a = (case a of None \<Rightarrow> JNull | Some s \<Rightarrow> JStr s)"

text \<open>
  Flask around a view: a view that raises gives the response 500, a request that matches
  no route is answered by Flask itself (404 or 405, taken as 404 here); the
  \<open>after_request\<close> hook runs on every response. The latency written by the hook is
  wall-clock time and is left out of the log line.
\<close>

definition finalize :: "exn + (json \<times> int) \<Rightarrow> json \<times> int" where
  "finalize r = (case r of Inl e \<Rightarrow> (JNull, 500) | Inr resp \<Rightarrow> resp)"

definition not_found :: "json \<times> int" where
  "not_found = (JNull, 404)"

definition health :: "json \<times> int" where
  "health = (JObj [(''status'', JStr ''ok'')], 200)"

section \<open>Service A: the provider\<close>

record metrics_a =
  requests_total :: int
  token_requests :: int

definition SERVICE_NAME_A :: string where
  "SERVICE_NAME_A = ''service-a''"

definition METRICS_a :: metrics_a where
  "METRICS_a = \<lparr>requests_total = 0, token_requests = 0\<rparr>"

definition log_request_a :: "http_request \<Rightarrow> int \<Rightarrow> metrics_a state \<Rightarrow> metrics_a state" where
  "log_request_a req status st =
     log_json ''INFO''
       [(''service'', JStr SERVICE_NAME_A), (''endpoint'', JStr (request_method req @ '' '' @ request_path req)),
        (''status'', JInt status), (''request_id'', JStr (header_or_empty (x_request_id req)))]
       (st\<lparr>METRICS := (METRICS st)\<lparr>requests_total := requests_total (METRICS st) + 1\<rparr>\<rparr>)"

definition metrics_view_a :: "metrics_a state \<Rightarrow> json \<times> int" where
  "metrics_view_a st =
     (JObj [(''requests_total'', JInt (requests_total (METRICS st))),
            (''token_requests'', JInt (token_requests (METRICS st)))], 200)"

text \<open>
  \<open>time.sleep(delay_ms / 1000.0)\<close>. The division turns the int into a float and raises
  \<open>OverflowError\<close> for an int that rounds beyond the largest float. \<open>time.sleep\<close> refuses a
  negative duration and keeps the duration as a count of nanoseconds in 64 signed bits:
  it raises \<open>OverflowError\<close> once that count reaches \<open>2 ^ 63\<close>, which for a whole number of
  milliseconds is from 9223372036855 on. Otherwise the sleep is recorded, in seconds.
\<close>

definition time_sleep_ms :: "int \<Rightarrow> 'm state \<Rightarrow> exn + 'm state" where
  "time_sleep_ms delay_ms st =
     (if 2 ^ 1024 - 2 ^ 970 \<le> \<bar>delay_ms\<bar>
      then Inl (Exn OverflowError ''int too large to convert to float'')
      else if delay_ms < 0
      then Inl (Exn ValueError ''sleep length must be non-negative'')
      else if 2 ^ 63 \<le> 1000000 * delay_ms
      then Inl (Exn OverflowError ''timestamp too large to convert to C _PyTime_t'')
      else Inr (sleep (of_int delay_ms / 1000) st))"

definition maybe_delay_from_query_or_json :: "int \<Rightarrow> 'm state \<Rightarrow> exn + 'm state" where
  "maybe_delay_from_query_or_json delay_ms st =
     (if delay_ms \<noteq> 0 \<and> delay_ms > 0 then time_sleep_ms delay_ms st else Inr st)"

text \<open>\<open>token\<close>, lines 64 to 73: the fields read from the inbound body and the query. Nothing
  here touches the state, so the reads are gathered in one function; each can raise.\<close>

definition parse_token :: "http_request \<Rightarrow> exn + (string \<times> json \<times> int)" where
  "parse_token req =
     (let body = py_or (get_json req) (JObj []) in
      and_then (dict_get body ''username'') (\<lambda>u.
      and_then (strip_method (py_or u (JStr []))) (\<lambda>username.
      and_then (dict_get body ''password'') (\<lambda>p.
      and_then (dict_get body ''delay_ms'') (\<lambda>d.
        Inr (username, py_or p (JStr []),
             int_or_zero (py_or (py_or d (str_or_None (args_delay_ms req))) (JInt 0))))))))"

definition token :: "http_request \<Rightarrow> metrics_a state \<Rightarrow> (exn + (json \<times> int)) \<times> metrics_a state" where
  "token req st =
     (let st1 = st\<lparr>METRICS := (METRICS st)\<lparr>token_requests := token_requests (METRICS st) + 1\<rparr>\<rparr>
      in case parse_token req of
           Inl e \<Rightarrow> (Inl e, st1)
         | Inr (username, password, delay_ms) \<Rightarrow>
             (case maybe_delay_from_query_or_json delay_ms st1 of
                Inl e \<Rightarrow> (Inl e, st1)
              | Inr st2 \<Rightarrow>
                  if username = ''divya'' \<and> password = JStr ''pass123''
                  then (Inr (JObj [(''token'', JStr (''token-'' @ username)),
                                   (''user'', JStr username)], 200), st2)
                  else (Inr (JObj [(''error'', JStr ''invalid credentials'')], 401), st2)))"

definition serve_a :: "http_request \<Rightarrow> metrics_a state \<Rightarrow> (json \<times> int) \<times> metrics_a state" where
  "serve_a req st =
     (let (r, st1) =
            (if request_method req = ''GET'' \<and> request_path req = ''/health'' then (Inr health, st)
             else if request_method req = ''GET'' \<and> request_path req = ''/metrics'' then (Inr (metrics_view_a st), st)
             else if request_method req = ''POST'' \<and> request_path req = ''/token'' then token req st
             else (Inr not_found, st));
          resp = finalize r
      in (resp, log_request_a req (snd resp) st1))"

section \<open>Service B: the consumer\<close>

record metrics_b =
  requests_total :: int
  protected_action_requests :: int
  provider_failures :: int
  provider_timeouts :: int
  provider_connection_errors :: int
  provider_other_errors :: int
  retries_used :: int

definition SERVICE_NAME :: string where
  "SERVICE_NAME = ''service-b''"

definition SERVICE_A :: string where
  "SERVICE_A = ''http://127.0.0.1:8080''"

definition TIMEOUT_SECS :: rat where
  "TIMEOUT_SECS = 1"

definition METRICS_b :: metrics_b where
  "METRICS_b = \<lparr>requests_total = 0, protected_action_requests = 0, provider_failures = 0,
                 provider_timeouts = 0, provider_connection_errors = 0,
                 provider_other_errors = 0, retries_used = 0\<rparr>"

definition log_request :: "http_request \<Rightarrow> int \<Rightarrow> metrics_b state \<Rightarrow> metrics_b state" where
  "log_request req status st =
     log_json ''INFO''
       [(''service'', JStr SERVICE_NAME), (''endpoint'', JStr (request_method req @ '' '' @ request_path req)),
        (''status'', JInt status), (''request_id'', JStr (header_or_empty (x_request_id req)))]
       (st\<lparr>METRICS := (METRICS st)\<lparr>requests_total := requests_total (METRICS st) + 1\<rparr>\<rparr>)"

definition metrics_view :: "metrics_b state \<Rightarrow> json \<times> int" where
  "metrics_view st =
     (JObj [(''requests_total'', JInt (requests_total (METRICS st))),
            (''protected_action_requests'', JInt (protected_action_requests (METRICS st))),
            (''provider_failures'', JInt (provider_failures (METRICS st))),
            (''provider_timeouts'', JInt (provider_timeouts (METRICS st))),
            (''provider_connection_errors'', JInt (provider_connection_errors (METRICS st))),
            (''provider_other_errors'', JInt (provider_other_errors (METRICS st))),
            (''retries_used'', JInt (retries_used (METRICS st)))], 200)"

text \<open>
  What the provider's HTTP response carries: the status, the text of the \<open>HTTPError\<close> that
  \<open>raise_for_status()\<close> builds from it, and what \<open>r.json()\<close> gives: the parsed body, or the
  text of the \<open>JSONDecodeError\<close> it raises.
\<close>

record response =
  status_code :: int
  http_error :: string
  json_result :: "string + json"

text \<open>\<open>r.raise_for_status()\<close> raises for a status from 400 to 599.\<close>

definition raise_for_status :: "response \<Rightarrow> exn + unit" where
  "raise_for_status r =
     (if 400 \<le> status_code r \<and> status_code r < 600
      then Inl (Exn HTTPError (http_error r)) else Inr ())"

definition r_json :: "response \<Rightarrow> exn + json" where
  "r_json r = (case json_result r of
                 Inl m \<Rightarrow> Inl (Exn JSONDecodeError m)
               | Inr j \<Rightarrow> Inr j)"

text \<open>
  The body of the \<open>try\<close> of one attempt, after \<open>requests.post\<close> has returned or raised:
  either the tuple the function returns, or the exception that reaches the handlers.
\<close>

definition try_body :: "exn + response \<Rightarrow> exn + (string \<times> json \<times> json)" where
  "try_body posted =
     (case posted of
        Inl e \<Rightarrow> Inl e
      | Inr r \<Rightarrow>
          if status_code r = 401 then Inr (''auth_failed'', JNull, JNull)
          else (case raise_for_status r of
                  Inl e \<Rightarrow> Inl e
                | Inr _ \<Rightarrow>
                    (case r_json r of
                       Inl e \<Rightarrow> Inl e
                     | Inr j \<Rightarrow> Inr (''ok'', j, JNull))))"

text \<open>The statement after the loop.\<close>

definition after_loop :: "exn option \<Rightarrow> string \<times> json \<times> json" where
  "after_loop last_exc =
     (''provider_failed'', JNull,
      case last_exc of Some e \<Rightarrow> JStr (str e) | None \<Rightarrow> JStr ''unknown error'')"

definition count_failure :: "(metrics_b \<Rightarrow> metrics_b) \<Rightarrow> metrics_b state \<Rightarrow> metrics_b state" where
  "count_failure bump st =
     st\<lparr>METRICS := bump ((METRICS st)\<lparr>provider_failures := provider_failures (METRICS st) + 1\<rparr>)\<rparr>"

text \<open>\<open>if enable_retry and attempt == 0: METRICS["retries_used"] += 1; time.sleep(0.05)\<close>\<close>

definition backoff :: "bool \<Rightarrow> nat \<Rightarrow> metrics_b state \<Rightarrow> metrics_b state" where
  "backoff enable_retry attempt st =
     (if enable_retry \<and> attempt = 0
      then sleep (1 / 20)
             (st\<lparr>METRICS := (METRICS st)\<lparr>retries_used := retries_used (METRICS st) + 1\<rparr>\<rparr>)
      else st)"

text \<open>
  The \<open>for attempt in range(attempts)\<close> loop, over the attempt numbers still to run.
  \<open>provider attempt\<close> is what \<open>requests.post\<close> does at that attempt. The handlers are tried
  in the source's order; \<open>break\<close> goes to the statement after the loop; an exception that
  no handler catches leaves the function.
\<close>

fun for_attempts ::
  "(nat \<Rightarrow> exn + response) \<Rightarrow> string \<Rightarrow> string \<Rightarrow> json \<Rightarrow> bool \<Rightarrow> nat list \<Rightarrow> exn option
    \<Rightarrow> metrics_b state \<Rightarrow> (exn + (string \<times> json \<times> json)) \<times> metrics_b state" where
  "for_attempts provider url request_id payload enable_retry [] last_exc st =
     (Inr (after_loop last_exc), st)"
| "for_attempts provider url request_id payload enable_retry (attempt # rest) last_exc st =
     (let st1 = st\<lparr>trace := trace st @ [Post url request_id payload]\<rparr> in
      case try_body (provider attempt) of
        Inr result \<Rightarrow> (Inr result, st1)
      | Inl e \<Rightarrow>
          if is_Timeout (cls e) then
            for_attempts provider url request_id payload enable_retry rest (Some e)
              (backoff enable_retry attempt
                (log_json ''ERROR''
                   [(''service'', JStr SERVICE_NAME), (''event'', JStr ''provider_call_failed''),
                    (''error'', JStr ''timeout''), (''timeout_secs'', JFloat (Finite TIMEOUT_SECS)),
                    (''attempt'', JInt (int attempt + 1)), (''request_id'', JStr request_id)]
                   (count_failure
                      (\<lambda>m. m\<lparr>provider_timeouts := provider_timeouts m + 1\<rparr>) st1)))
          else if is_ConnectionError (cls e) then
            for_attempts provider url request_id payload enable_retry rest (Some e)
              (backoff enable_retry attempt
                (log_json ''ERROR''
                   [(''service'', JStr SERVICE_NAME), (''event'', JStr ''provider_call_failed''),
                    (''error'', JStr ''connection_error''), (''details'', JStr (str e)),
                    (''attempt'', JInt (int attempt + 1)), (''request_id'', JStr request_id)]
                   (count_failure
                      (\<lambda>m. m\<lparr>provider_connection_errors := provider_connection_errors m + 1\<rparr>) st1)))
          else if is_RequestException (cls e) then
            (Inr (after_loop (Some e)),
             log_json ''ERROR''
               [(''service'', JStr SERVICE_NAME), (''event'', JStr ''provider_call_failed''),
                (''error'', JStr ''request_exception''), (''details'', JStr (str e)),
                (''attempt'', JInt (int attempt + 1)), (''request_id'', JStr request_id)]
               (count_failure
                  (\<lambda>m. m\<lparr>provider_other_errors := provider_other_errors m + 1\<rparr>) st1))
          else (Inl e, st1))"

definition call_provider_token ::
  "(nat \<Rightarrow> exn + response) \<Rightarrow> string \<Rightarrow> json \<Rightarrow> int \<Rightarrow> string \<Rightarrow> bool
    \<Rightarrow> metrics_b state \<Rightarrow> (exn + (string \<times> json \<times> json)) \<times> metrics_b state" where
  "call_provider_token provider username password delay_ms request_id enable_retry st =
     (let url = SERVICE_A @ ''/token'';
          payload = JObj [(''username'', JStr username), (''password'', password),
                          (''delay_ms'', JInt delay_ms)];
          attempts = (if enable_retry then 2 else 1 :: nat)
      in for_attempts provider url request_id payload enable_retry [0..<attempts] None st)"

text \<open>
  \<open>protected_action\<close>, lines 135 to 149: the fields read from the inbound body. Nothing here
  touches the state, so the reads are gathered in one function; each can raise.
\<close>

definition parse_action :: "json \<Rightarrow> exn + (string \<times> json \<times> json \<times> int \<times> bool)" where
  "parse_action raw =
     (let body = py_or raw (JObj []) in
      and_then (dict_get body ''username'') (\<lambda>u.
      and_then (strip_method (py_or u (JStr []))) (\<lambda>username.
      and_then (dict_get body ''password'') (\<lambda>p.
      and_then (dict_get body ''action'') (\<lambda>a.
      and_then (dict_get body ''delay_ms'') (\<lambda>d.
      and_then (dict_get body ''retry'') (\<lambda>r.
        Inr (username, py_or p (JStr []), py_or a (JStr ''ping''),
             int_or_zero (py_or d (JInt 0)),
             (if r \<noteq> JNull then truthy r else True)))))))))"

text \<open>\<open>request.headers.get("X-Request-ID") or str(uuid.uuid4())\<close>; \<open>uuid4\<close> is the identifier
  that \<open>uuid.uuid4()\<close> would give.\<close>

definition resolve_request_id :: "string option \<Rightarrow> string \<Rightarrow> string" where
  "resolve_request_id h uuid4 =
     (case h of None \<Rightarrow> uuid4 | Some s \<Rightarrow> if s \<noteq> [] then s else uuid4)"

text \<open>\<open>protected_action\<close>, lines 162 to 175: the response for what \<open>call_provider_token\<close>
  returned.\<close>

definition respond :: "string \<times> json \<times> json \<Rightarrow> json \<Rightarrow> string \<Rightarrow> exn + (json \<times> int)" where
  "respond called action request_id =
     (case called of (status, provider_json, err) \<Rightarrow>
        if status = ''auth_failed''
        then Inr (JObj [(''error'', JStr ''invalid credentials'')], 401)
        else if status \<noteq> ''ok''
        then Inr (JObj [(''error'', JStr ''provider unavailable''), (''details'', err)], 503)
        else and_then (dict_get provider_json ''user'') (\<lambda>user.
             and_then (dict_get provider_json ''token'') (\<lambda>tok.
               Inr (JObj [(''consumer'', JStr ''ok''), (''action'', action), (''user'', user),
                          (''token'', tok), (''request_id'', JStr request_id)], 200))))"

definition protected_action ::
  "(nat \<Rightarrow> exn + response) \<Rightarrow> string \<Rightarrow> http_request \<Rightarrow> metrics_b state
    \<Rightarrow> (exn + (json \<times> int)) \<times> metrics_b state" where
  "protected_action provider uuid4 req st =
     (let st1 = st\<lparr>METRICS := (METRICS st)\<lparr>protected_action_requests :=
                                   protected_action_requests (METRICS st) + 1\<rparr>\<rparr>
      in case parse_action (get_json req) of
           Inl e \<Rightarrow> (Inl e, st1)
         | Inr (username, password, action, delay_ms, enable_retry) \<Rightarrow>
             let request_id = resolve_request_id (x_request_id req) uuid4;
                 (called, st2) = call_provider_token provider username password delay_ms
                                   request_id enable_retry st1
             in (and_then called (\<lambda>result. respond result action request_id), st2))"

definition serve_b ::
  "(nat \<Rightarrow> exn + response) \<Rightarrow> string \<Rightarrow> http_request \<Rightarrow> metrics_b state
    \<Rightarrow> (json \<times> int) \<times> metrics_b state" where
  "serve_b provider uuid4 req st =
     (let (r, st1) =
            (if request_method req = ''GET'' \<and> request_path req = ''/health'' then (Inr health, st)
             else if request_method req = ''GET'' \<and> request_path req = ''/metrics'' then (Inr (metrics_view st), st)
             else if request_method req = ''POST'' \<and> request_path req = ''/protected-action''
             then protected_action provider uuid4 req st
             else (Inr not_found, st));
          resp = finalize r
      in (resp, log_request req (snd resp) st1))"

text \<open>Readings of a trace: the \<open>X-Request-ID\<close> headers and the payloads of the outbound
  calls, and the sleeps, each in order.\<close>

fun post_headers :: "event list \<Rightarrow> string list" where
  "post_headers [] = []"
| "post_headers (Post url h p # evs) = h # post_headers evs"
| "post_headers (_ # evs) = post_headers evs"

fun post_payloads :: "event list \<Rightarrow> json list" where
  "post_payloads [] = []"
| "post_payloads (Post url h p # evs) = p # post_payloads evs"
| "post_payloads (_ # evs) = post_payloads evs"

fun sleeps :: "event list \<Rightarrow> rat list" where
  "sleeps [] = []"
| "sleeps (Sleep d # evs) = d # sleeps evs"
| "sleeps (_ # evs) = sleeps evs"

section \<open>Initial states and sample provider responses\<close>

text \<open>The state of service B at start-up, and three responses of the provider: the
  rejection, the success, and a server error whose body is not JSON.\<close>

definition init_b :: "metrics_b state" where
  "init_b = \<lparr>METRICS = METRICS_b, trace = []\<rparr>"

definition rejected_response :: response where
  "rejected_response =
     \<lparr>status_code = 401, http_error = ''401 Client Error: UNAUTHORIZED'',
      json_result = Inr (JObj [(''error'', JStr ''invalid credentials'')])\<rparr>"

definition success_response :: response where
  "success_response =
     \<lparr>status_code = 200, http_error = [],
      json_result = Inr (JObj [(''token'', JStr ''token-divya''), (''user'', JStr ''divya'')])\<rparr>"

definition error_response :: response where
  "error_response =
     \<lparr>status_code = 500, http_error = ''500 Server Error: INTERNAL SERVER ERROR'',
      json_result = Inl ''Expecting value: line 1 column 1 (char 0)''\<rparr>"

text \<open>An inbound request to \<open>/protected-action\<close>; a response with status 200 whose body
  is not JSON; a provider that times out and then answers with that body; and a provider
  that times out and then refuses the connection.\<close>

definition post_action :: "json \<Rightarrow> string option \<Rightarrow> http_request" where
  "post_action body rid =
     \<lparr>request_method = ''POST'', request_path = ''/protected-action'', x_request_id = rid,
      get_json = body, args_delay_ms = None\<rparr>"



definition flaky_provider :: "nat \<Rightarrow> exn + response" where
  "flaky_provider k =
     (if k = 0 then Inl (Exn ReadTimeout ''Read timed out. (read timeout=1.0)'')
      else Inl (Exn ConnectionError ''Connection refused''))"

text \<open>The state of service A at start-up and an inbound request to \<open>/token\<close>.\<close>

definition init_a :: "metrics_a state" where
  "init_a = \<lparr>METRICS = METRICS_a, trace = []\<rparr>"

definition post_token :: "json \<Rightarrow> string option \<Rightarrow> http_request" where
  "post_token body rid =
     \<lparr>request_method = ''POST'', request_path = ''/token'', x_request_id = rid,
      get_json = body, args_delay_ms = None\<rparr>"

text \<open>One reading of \<open>METRICS\<close> is below another when no counter is smaller in the second.\<close>

definition metrics_a_le :: "metrics_a \<Rightarrow> metrics_a \<Rightarrow> bool" where
  "metrics_a_le m m' =
     (metrics_a.requests_total m \<le> metrics_a.requests_total m'
      \<and> token_requests m \<le> token_requests m')"

definition metrics_b_le :: "metrics_b \<Rightarrow> metrics_b \<Rightarrow> bool" where
  "metrics_b_le m m' =
     (requests_total m \<le> requests_total m'
      \<and> protected_action_requests m \<le> protected_action_requests m'
      \<and> provider_failures m \<le> provider_failures m'
      \<and> provider_timeouts m \<le> provider_timeouts m'
      \<and> provider_connection_errors m \<le> provider_connection_errors m'
      \<and> provider_other_errors m \<le> provider_other_errors m'
      \<and> retries_used m \<le> retries_used m')"

text \<open>A provider that accepts at once, an identifier as \<open>uuid.uuid4()\<close> gives them, and
  three inbound bodies: the fixed credentials, the same with a padded username, and a
  username that is a number.\<close>

definition accepting_provider :: "nat \<Rightarrow> exn + response" where
  "accepting_provider k = Inr success_response"

definition fresh_uuid :: string where
  "fresh_uuid = ''0b1e5a2c-7c1d-4e0a-9f57-3a1f0c2d4e6b''"

definition good_login :: json where
  "good_login = JObj [(''username'', JStr ''divya''), (''password'', JStr ''pass123'')]"


definition numeric_login :: json where
  "numeric_login = JObj [(''username'', JInt 123), (''password'', JStr ''pass123'')]"



definition endless_login :: json where
  "endless_login =
     JObj [(''username'', JStr ''divya''), (''password'', JStr ''pass123''),
           (''delay_ms'', JInt (10 ^ 30))]"

section \<open>Properties of the consumer's call to the provider\<close>

lemma upt_0_2: "[0..<2] = [0, Suc 0]"
  by (simp add: upt_rec)

lemma post_headers_append: "post_headers (xs @ ys) = post_headers xs @ post_headers ys"
  by (induction xs rule: post_headers.induct) simp_all

lemma post_payloads_append: "post_payloads (xs @ ys) = post_payloads xs @ post_payloads ys"
  by (induction xs rule: post_payloads.induct) simp_all

lemma sleeps_append: "sleeps (xs @ ys) = sleeps xs @ sleeps ys"
  by (induction xs rule: sleeps.induct) simp_all

lemma try_body_401: "status_code r = 401 \<Longrightarrow> try_body (Inr r) = Inr (''auth_failed'', JNull, JNull)"
  by (simp add: try_body_def)

lemma for_attempts_returned:
  "try_body (provider attempt) = Inr result \<Longrightarrow>
   for_attempts provider url request_id payload enable_retry (attempt # rest) last_exc st
     = (Inr result, st\<lparr>trace := trace st @ [Post url request_id payload]\<rparr>)"
  by simp

text \<open>
  Claim C1. At whichever attempt \<open>requests.post\<close> returns a response with status 401, the
  loop returns \<open>("auth_failed", None, None)\<close> at once, whatever attempts remain and whether
  retry is enabled: the state after it is the state before it with that one outbound call
  added, so no counter has moved, nothing was logged and nothing slept. When this is the
  first attempt, the whole run has made exactly one outbound call and left every counter
  as it was.
\<close>

theorem auth_rejection_short_circuits:
  assumes "provider attempt = Inr r" and "status_code r = 401"
  shows "for_attempts provider url request_id payload enable_retry (attempt # rest) last_exc st
           = (Inr (''auth_failed'', JNull, JNull),
              st\<lparr>trace := trace st @ [Post url request_id payload]\<rparr>)
       \<and> (attempt = 0 \<longrightarrow>
            (case call_provider_token provider username password delay_ms request_id enable_retry st
             of (result, st') \<Rightarrow>
               result = Inr (''auth_failed'', JNull, JNull)
             \<and> METRICS st' = METRICS st
             \<and> post_headers (trace st') = post_headers (trace st) @ [request_id]
             \<and> sleeps (trace st') = sleeps (trace st)))"
proof -
  have t: "try_body (provider attempt) = Inr (''auth_failed'', JNull, JNull)"
    using assms by (simp add: try_body_401)
  have loop: "\<And>url payload rest last_exc.
     for_attempts provider url request_id payload enable_retry (attempt # rest) last_exc st
       = (Inr (''auth_failed'', JNull, JNull),
          st\<lparr>trace := trace st @ [Post url request_id payload]\<rparr>)"
    using t by (rule for_attempts_returned)
  have run: "attempt = 0 \<Longrightarrow>
     call_provider_token provider username password delay_ms request_id enable_retry st
       = (Inr (''auth_failed'', JNull, JNull),
          st\<lparr>trace := trace st @ [Post (SERVICE_A @ ''/token'') request_id
             (JObj [(''username'', JStr username), (''password'', password),
                    (''delay_ms'', JInt delay_ms)])]\<rparr>)"
    using loop by (cases enable_retry) (simp_all add: call_provider_token_def upt_0_2 del: for_attempts.simps)
  show ?thesis
    using loop run by (auto simp add: post_headers_append sleeps_append simp del: for_attempts.simps)
qed

theorem auth_rejection_short_circuits_witness:
  "status_code rejected_response = 401
   \<and> for_attempts (\<lambda>k. Inr rejected_response) (SERVICE_A @ ''/token'') ''abc123'' JNull True
        [0, 1] None init_b
       = (Inr (''auth_failed'', JNull, JNull),
          init_b\<lparr>trace := trace init_b @ [Post (SERVICE_A @ ''/token'') ''abc123'' JNull]\<rparr>)
   \<and> fst (call_provider_token (\<lambda>k. Inr rejected_response) ''divya'' (JStr ''wrong'') 0
            ''abc123'' True init_b) = Inr (''auth_failed'', JNull, JNull)
   \<and> METRICS (snd (call_provider_token (\<lambda>k. Inr rejected_response) ''divya'' (JStr ''wrong'') 0
            ''abc123'' True init_b)) = METRICS_b"
proof -
  have h: "status_code rejected_response = 401"
    by (simp add: rejected_response_def)
  show ?thesis
    using h auth_rejection_short_circuits [where provider = "\<lambda>k. Inr rejected_response"
        and attempt = 0 and r = rejected_response and url = "SERVICE_A @ ''/token''"
        and request_id = "''abc123''" and payload = JNull and enable_retry = True
        and rest = "[1]" and last_exc = None and st = init_b
        and username = "''divya''" and password = "JStr ''wrong''" and delay_ms = 0]
    by (simp add: init_b_def split: prod.splits del: for_attempts.simps)
qed

lemmas effect_defs = backoff_def log_json_def count_failure_def sleep_def

text \<open>
  Claim C2. With retry enabled, when the first attempt ends in a request exception that is
  neither a timeout nor a connection error (an \<open>HTTPError\<close> for an unexpected status, a
  body that is not JSON, or any other exception of the \<open>requests\<close> hierarchy), the run
  returns \<open>"provider_failed"\<close> with that exception's text after exactly one outbound call:
  \<open>provider_failures\<close> and \<open>provider_other_errors\<close> have each grown by one,
  \<open>retries_used\<close> and the other failure counters are as before, and nothing slept.
\<close>

theorem other_error_is_not_retried:
  assumes "try_body (provider 0) = Inl e"
    and "\<not> is_Timeout (cls e)" and "\<not> is_ConnectionError (cls e)"
    and "is_RequestException (cls e)"
  shows "case call_provider_token provider username password delay_ms request_id True st of
           (result, st') \<Rightarrow>
              result = Inr (''provider_failed'', JNull, JStr (str e))
            \<and> provider_failures (METRICS st') = provider_failures (METRICS st) + 1
            \<and> provider_other_errors (METRICS st') = provider_other_errors (METRICS st) + 1
            \<and> retries_used (METRICS st') = retries_used (METRICS st)
            \<and> provider_timeouts (METRICS st') = provider_timeouts (METRICS st)
            \<and> provider_connection_errors (METRICS st') = provider_connection_errors (METRICS st)
            \<and> post_headers (trace st') = post_headers (trace st) @ [request_id]
            \<and> sleeps (trace st') = sleeps (trace st)"
  using assms
  by (simp add: call_provider_token_def upt_0_2 after_loop_def effect_defs
        post_headers_append sleeps_append)

theorem other_error_is_not_retried_witness:
  "try_body (if (0::nat) = 0 then Inr error_response else Inr success_response)
     = Inl (Exn HTTPError ''500 Server Error: INTERNAL SERVER ERROR'')
   \<and> fst (call_provider_token (\<lambda>k. if k = 0 then Inr error_response else Inr success_response)
           ''divya'' (JStr ''pass123'') 0 ''abc123'' True init_b)
       = Inr (''provider_failed'', JNull, JStr ''500 Server Error: INTERNAL SERVER ERROR'')
   \<and> post_headers (trace (snd (call_provider_token
           (\<lambda>k. if k = 0 then Inr error_response else Inr success_response)
           ''divya'' (JStr ''pass123'') 0 ''abc123'' True init_b))) = [''abc123'']
   \<and> retries_used (METRICS (snd (call_provider_token
           (\<lambda>k. if k = 0 then Inr error_response else Inr success_response)
           ''divya'' (JStr ''pass123'') 0 ''abc123'' True init_b))) = 0"
proof -
  have h: "try_body ((\<lambda>k::nat. if k = 0 then Inr error_response else Inr success_response) 0)
     = Inl (Exn HTTPError ''500 Server Error: INTERNAL SERVER ERROR'')"
    by (simp add: try_body_def error_response_def raise_for_status_def)
  show ?thesis
    using h other_error_is_not_retried [where provider = "\<lambda>k. if k = 0 then Inr error_response
            else Inr success_response"
        and e = "Exn HTTPError ''500 Server Error: INTERNAL SERVER ERROR''"
        and username = "''divya''" and password = "JStr ''pass123''" and delay_ms = 0
        and request_id = "''abc123''" and st = init_b]
    by (simp add: init_b_def METRICS_b_def split: prod.splits)
qed

text \<open>
  Claim C4. With retry enabled, when the first attempt times out and the second returns
  status 200 with a JSON object holding \<open>token\<close> and \<open>user\<close>, the run returns \<open>"ok"\<close> with
  that object, from which the endpoint builds the 200 response with the provider's token
  and user. \<open>provider_timeouts\<close>, \<open>provider_failures\<close> and \<open>retries_used\<close> have each grown
  by exactly one, the other failure counters are as before, and the run did, in this
  order: the first call, the failure log line, one sleep of 0.05 s, the second call.
\<close>

theorem timeout_then_success:
  assumes "provider 0 = Inl e" and "is_Timeout (cls e)"
    and "provider 1 = Inr r" and "status_code r = 200"
    and "json_result r = Inr (JObj kvs)"
    and "map_of kvs ''token'' = Some tok" and "map_of kvs ''user'' = Some user"
  shows "case call_provider_token provider username password delay_ms request_id True st of
           (result, st') \<Rightarrow>
              result = Inr (''ok'', JObj kvs, JNull)
            \<and> respond (''ok'', JObj kvs, JNull) action request_id
                = Inr (JObj [(''consumer'', JStr ''ok''), (''action'', action), (''user'', user),
                             (''token'', tok), (''request_id'', JStr request_id)], 200)
            \<and> provider_timeouts (METRICS st') = provider_timeouts (METRICS st) + 1
            \<and> provider_failures (METRICS st') = provider_failures (METRICS st) + 1
            \<and> retries_used (METRICS st') = retries_used (METRICS st) + 1
            \<and> provider_connection_errors (METRICS st') = provider_connection_errors (METRICS st)
            \<and> provider_other_errors (METRICS st') = provider_other_errors (METRICS st)
            \<and> post_headers (trace st') = post_headers (trace st) @ [request_id, request_id]
            \<and> sleeps (trace st') = sleeps (trace st) @ [1 / 20]
            \<and> (\<exists>sent logged. trace st' = trace st @ [sent, logged, Sleep (1 / 20), sent])"
  using assms
  by (simp add: call_provider_token_def upt_0_2 try_body_def raise_for_status_def r_json_def
        respond_def and_then_def effect_defs post_headers_append sleeps_append Let_def)

theorem timeout_then_success_witness:
  "(case call_provider_token
          (\<lambda>k. if k = 0 then Inl (Exn ReadTimeout ''Read timed out. (read timeout=1.0)'')
                else Inr success_response)
          ''divya'' (JStr ''pass123'') 1500 ''abc123'' True init_b of
      (result, st') \<Rightarrow>
         result = Inr (''ok'', JObj [(''token'', JStr ''token-divya''), (''user'', JStr ''divya'')],
                       JNull)
       \<and> provider_timeouts (METRICS st') = 1
       \<and> provider_failures (METRICS st') = 1
       \<and> retries_used (METRICS st') = 1
       \<and> sleeps (trace st') = [1 / 20]
       \<and> post_headers (trace st') = [''abc123'', ''abc123''])"
  using timeout_then_success [where provider = "\<lambda>k. if k = 0
            then Inl (Exn ReadTimeout ''Read timed out. (read timeout=1.0)'')
            else Inr success_response"
        and e = "Exn ReadTimeout ''Read timed out. (read timeout=1.0)''"
        and r = success_response
        and kvs = "[(''token'', JStr ''token-divya''), (''user'', JStr ''divya'')]"
        and tok = "JStr ''token-divya''" and user = "JStr ''divya''"
        and username = "''divya''" and password = "JStr ''pass123''" and delay_ms = 1500
        and request_id = "''abc123''" and st = init_b and action = "JStr ''ping''"]
  by (simp add: success_response_def init_b_def METRICS_b_def split: prod.splits)


lemma call_provider_token_all_transient:
  assumes "attempts = (if enable_retry then 2 else 1)"
    and "\<forall>k<attempts. \<exists>e. provider k = Inl e \<and> (is_Timeout (cls e) \<or> is_ConnectionError (cls e))"
    and "provider (attempts - 1) = Inl e_last"
  shows "case call_provider_token provider username password delay_ms request_id enable_retry st of
      (result, st') \<Rightarrow>
        result = Inr (''provider_failed'', JNull, JStr (str e_last))
      \<and> provider_failures (METRICS st') = provider_failures (METRICS st) + int attempts
      \<and> provider_timeouts (METRICS st') + provider_connection_errors (METRICS st')
          = provider_timeouts (METRICS st) + provider_connection_errors (METRICS st) + int attempts
      \<and> provider_other_errors (METRICS st') = provider_other_errors (METRICS st)
      \<and> retries_used (METRICS st') = retries_used (METRICS st) + int attempts - 1
      \<and> requests_total (METRICS st') = requests_total (METRICS st)
      \<and> protected_action_requests (METRICS st') = protected_action_requests (METRICS st)
      \<and> length (post_headers (trace st')) = length (post_headers (trace st)) + attempts"
proof (cases enable_retry)
  case False
  with assms have a: "attempts = 1" by simp
  from assms(2,3) a have t: "is_Timeout (cls e_last) \<or> is_ConnectionError (cls e_last)"
    and p: "provider 0 = Inl e_last" by auto
  show ?thesis
    using False a p t
    by (cases "is_Timeout (cls e_last)")
       (simp_all add: call_provider_token_def try_body_def after_loop_def effect_defs
          post_headers_append Let_def)
next
  case True
  with assms have a: "attempts = 2" by simp
  from assms(2) a obtain e0 where p0: "provider 0 = Inl e0"
    and t0: "is_Timeout (cls e0) \<or> is_ConnectionError (cls e0)"
    by (metis zero_less_numeral)
  from assms(2,3) a have p1: "provider (Suc 0) = Inl e_last"
    and t1: "is_Timeout (cls e_last) \<or> is_ConnectionError (cls e_last)"
    by (auto simp add: numeral_2_eq_2)
  show ?thesis
    using True a p0 t0 p1 t1
    by (cases "is_Timeout (cls e0)"; cases "is_Timeout (cls e_last)")
       (simp_all add: call_provider_token_def upt_0_2 try_body_def after_loop_def effect_defs
          post_headers_append Let_def)
qed


text \<open>
  Claim C3. When every attempt of a run ends in a timeout or a connection error (two
  attempts with retry enabled, one without), \<open>call_provider_token\<close> returns
  \<open>"provider_failed"\<close> with the text of the last attempt's exception, \<open>protected_action\<close>
  answers 503 with that text as \<open>details\<close>, and over the run \<open>provider_timeouts\<close> and
  \<open>provider_connection_errors\<close> have together grown by the number of attempts, as has
  \<open>provider_failures\<close>, one outbound call having been made per attempt.
\<close>

theorem transient_failures_exhaust_attempts:
  assumes "parse_action (get_json req) = Inr (username, password, action, delay_ms, enable_retry)"
    and "attempts = (if enable_retry then 2 else 1)"
    and "\<forall>k<attempts. \<exists>e. provider k = Inl e \<and> (is_Timeout (cls e) \<or> is_ConnectionError (cls e))"
    and "provider (attempts - 1) = Inl e_last"
  shows "fst (call_provider_token provider username password delay_ms request_id enable_retry st0)
           = Inr (''provider_failed'', JNull, JStr (str e_last))
       \<and> (case protected_action provider uuid4 req st of
            (resp, st') \<Rightarrow>
               resp = Inr (JObj [(''error'', JStr ''provider unavailable''),
                                 (''details'', JStr (str e_last))], 503)
             \<and> (provider_timeouts (METRICS st') - provider_timeouts (METRICS st))
                + (provider_connection_errors (METRICS st')
                    - provider_connection_errors (METRICS st)) = int attempts
             \<and> provider_failures (METRICS st') = provider_failures (METRICS st) + int attempts
             \<and> provider_other_errors (METRICS st') = provider_other_errors (METRICS st)
             \<and> length (post_headers (trace st')) = length (post_headers (trace st)) + attempts)"
proof -
  note run = call_provider_token_all_transient [OF assms(2,3,4)]
  have first: "fst (call_provider_token provider username password delay_ms request_id
                      enable_retry st0) = Inr (''provider_failed'', JNull, JStr (str e_last))"
    using run [where username = username and password = password and delay_ms = delay_ms
        and request_id = request_id and st = st0]
    by (simp split: prod.splits)
  let ?st1 = "st\<lparr>METRICS := (METRICS st)\<lparr>protected_action_requests :=
                      protected_action_requests (METRICS st) + 1\<rparr>\<rparr>"
  have second: "case protected_action provider uuid4 req st of
            (resp, st') \<Rightarrow>
               resp = Inr (JObj [(''error'', JStr ''provider unavailable''),
                                 (''details'', JStr (str e_last))], 503)
             \<and> (provider_timeouts (METRICS st') - provider_timeouts (METRICS st))
                + (provider_connection_errors (METRICS st')
                    - provider_connection_errors (METRICS st)) = int attempts
             \<and> provider_failures (METRICS st') = provider_failures (METRICS st) + int attempts
             \<and> provider_other_errors (METRICS st') = provider_other_errors (METRICS st)
             \<and> length (post_headers (trace st')) = length (post_headers (trace st)) + attempts"
    using run [where username = username and password = password and delay_ms = delay_ms
        and request_id = "resolve_request_id (x_request_id req) uuid4" and st = ?st1]
      assms(1)
    by (auto simp add: protected_action_def respond_def and_then_def split: prod.splits)
  from first second show ?thesis by blast
qed

theorem transient_failures_exhaust_attempts_witness:
  "(case protected_action flaky_provider ''0b1e5a2c-7c1d-4e0a-9f57-3a1f0c2d4e6b''
          (post_action (JObj [(''username'', JStr ''divya''), (''password'', JStr ''pass123'')])
             (Some ''abc123'')) init_b of
      (resp, st') \<Rightarrow>
         resp = Inr (JObj [(''error'', JStr ''provider unavailable''),
                           (''details'', JStr ''Connection refused'')], 503)
       \<and> provider_timeouts (METRICS st') + provider_connection_errors (METRICS st') = 2
       \<and> provider_failures (METRICS st') = 2
       \<and> length (post_headers (trace st')) = 2)"
proof -
  have parsed: "parse_action (get_json (post_action
          (JObj [(''username'', JStr ''divya''), (''password'', JStr ''pass123'')])
          (Some ''abc123'')))
      = Inr (''divya'', JStr ''pass123'', JStr ''ping'', 0, True)"
    by (simp add: parse_action_def post_action_def py_or_def and_then_def strip_def is_space_def
          int_or_zero_def)
  have all: "\<forall>k<2. \<exists>e. flaky_provider k = Inl e \<and> (is_Timeout (cls e) \<or> is_ConnectionError (cls e))"
    by (simp add: flaky_provider_def)
  have last: "flaky_provider (2 - 1) = Inl (Exn ConnectionError ''Connection refused'')"
    by (simp add: flaky_provider_def)
  show ?thesis
    using transient_failures_exhaust_attempts [OF parsed _ all last,
        where request_id = "''abc123''" and ?st0.0 = init_b
          and ?uuid4.0 = "''0b1e5a2c-7c1d-4e0a-9f57-3a1f0c2d4e6b''" and st = init_b]
    by (simp add: init_b_def METRICS_b_def split: prod.splits)
qed






text \<open>An exception outside the \<open>requests\<close> hierarchy is caught by no handler and leaves
  the function.\<close>

lemma call_provider_token_propagates_uncaught:
  assumes "provider 0 = Inl e" and "\<not> is_RequestException (cls e)"
  shows "fst (call_provider_token provider username password delay_ms request_id enable_retry st)
           = Inl e"
proof -
  from assms(2) have "\<not> is_Timeout (cls e)" and "\<not> is_ConnectionError (cls e)"
    by (cases "cls e"; simp)+
  with assms show ?thesis
    by (cases enable_retry) (simp_all add: call_provider_token_def upt_0_2 try_body_def Let_def)
qed

section \<open>Counters\<close>

lemma metrics_b_le_refl: "metrics_b_le m m"
  by (simp add: metrics_b_le_def)

lemma metrics_b_le_trans: "metrics_b_le a b \<Longrightarrow> metrics_b_le b c \<Longrightarrow> metrics_b_le a c"
  by (auto simp add: metrics_b_le_def)

lemma for_attempts_metrics_mono:
  "metrics_b_le (METRICS st)
     (METRICS (snd (for_attempts provider url request_id payload enable_retry todo last_exc st)))"
proof (induction todo arbitrary: last_exc st)
  case Nil
  show ?case by (simp add: metrics_b_le_refl)
next
  case (Cons attempt rest)
  show ?case
  proof (cases "try_body (provider attempt)")
    case (Inr result)
    then show ?thesis by (simp add: metrics_b_le_def)
  next
    case (Inl e)
    show ?thesis
    proof (cases "is_Timeout (cls e)")
      case True
      let ?st2 = "backoff enable_retry attempt
                (log_json ''ERROR''
                   [(''service'', JStr SERVICE_NAME), (''event'', JStr ''provider_call_failed''),
                    (''error'', JStr ''timeout''), (''timeout_secs'', JFloat (Finite TIMEOUT_SECS)),
                    (''attempt'', JInt (int attempt + 1)), (''request_id'', JStr request_id)]
                   (count_failure
                      (\<lambda>m. m\<lparr>provider_timeouts := provider_timeouts m + 1\<rparr>)
                      (st\<lparr>trace := trace st @ [Post url request_id payload]\<rparr>)))"
      have step: "metrics_b_le (METRICS st) (METRICS ?st2)"
        by (simp add: metrics_b_le_def effect_defs)
      from Inl True have "for_attempts provider url request_id payload enable_retry
            (attempt # rest) last_exc st
          = for_attempts provider url request_id payload enable_retry rest (Some e) ?st2"
        by simp
      with metrics_b_le_trans [OF step Cons.IH [where last_exc = "Some e" and st = ?st2]] show ?thesis
        by simp
    next
      case False
      note nt = this
      show ?thesis
      proof (cases "is_ConnectionError (cls e)")
        case True
        let ?st2 = "backoff enable_retry attempt
                (log_json ''ERROR''
                   [(''service'', JStr SERVICE_NAME), (''event'', JStr ''provider_call_failed''),
                    (''error'', JStr ''connection_error''), (''details'', JStr (str e)),
                    (''attempt'', JInt (int attempt + 1)), (''request_id'', JStr request_id)]
                   (count_failure
                      (\<lambda>m. m\<lparr>provider_connection_errors := provider_connection_errors m + 1\<rparr>)
                      (st\<lparr>trace := trace st @ [Post url request_id payload]\<rparr>)))"
        have step: "metrics_b_le (METRICS st) (METRICS ?st2)"
          by (simp add: metrics_b_le_def effect_defs)
        from Inl nt True have "for_attempts provider url request_id payload enable_retry
              (attempt # rest) last_exc st
            = for_attempts provider url request_id payload enable_retry rest (Some e) ?st2"
          by simp
        with metrics_b_le_trans [OF step Cons.IH [where last_exc = "Some e" and st = ?st2]] show ?thesis
          by simp
      next
        case False
        with nt Inl show ?thesis
          by (cases "is_RequestException (cls e)")
             (simp_all add: metrics_b_le_def effect_defs Let_def)
      qed
    qed
  qed
qed

lemma call_provider_token_metrics_mono:
  "metrics_b_le (METRICS st)
     (METRICS (snd (call_provider_token provider username password delay_ms request_id
                      enable_retry st)))"
  unfolding call_provider_token_def Let_def by (rule for_attempts_metrics_mono)

lemma protected_action_metrics_mono:
  "metrics_b_le (METRICS st) (METRICS (snd (protected_action provider uuid4 req st)))"
proof (cases "parse_action (get_json req)")
  case (Inl e)
  then show ?thesis by (simp add: protected_action_def metrics_b_le_def)
next
  case (Inr parsed)
  obtain username password action delay_ms enable_retry
    where p: "parsed = (username, password, action, delay_ms, enable_retry)"
    by (cases parsed) auto
  let ?st1 = "st\<lparr>METRICS := (METRICS st)\<lparr>protected_action_requests :=
                      protected_action_requests (METRICS st) + 1\<rparr>\<rparr>"
  have a: "metrics_b_le (METRICS st) (METRICS ?st1)"
    by (simp add: metrics_b_le_def)
  have b: "snd (protected_action provider uuid4 req st)
      = snd (call_provider_token provider username password delay_ms
               (resolve_request_id (x_request_id req) uuid4) enable_retry ?st1)"
    using Inr p by (simp add: protected_action_def Let_def split: prod.splits)
  show ?thesis
    unfolding b by (rule metrics_b_le_trans [OF a call_provider_token_metrics_mono])
qed

lemma log_request_metrics_mono: "metrics_b_le (METRICS st) (METRICS (log_request req status st))"
  by (simp add: log_request_def log_json_def metrics_b_le_def)

lemma serve_b_metrics_mono:
  "metrics_b_le (METRICS st) (METRICS (snd (serve_b provider uuid4 req st)))"
proof (cases "request_method req = ''POST'' \<and> request_path req = ''/protected-action''")
  case True
  then have "snd (serve_b provider uuid4 req st)
      = log_request req (snd (finalize (fst (protected_action provider uuid4 req st))))
          (snd (protected_action provider uuid4 req st))"
    by (simp add: serve_b_def Let_def split: prod.splits)
  then show ?thesis
    using metrics_b_le_trans [OF protected_action_metrics_mono log_request_metrics_mono]
    by simp
next
  case False
  then have "\<exists>status. snd (serve_b provider uuid4 req st) = log_request req status st"
    by (auto simp add: serve_b_def Let_def)
  then show ?thesis
    using log_request_metrics_mono by auto
qed

lemma sleep_bound: "(2::int) ^ 63 < 2 ^ 1024 - 2 ^ 970"
  by simp


lemma maybe_delay_refuses:
  assumes "2 ^ 63 \<le> 1000000 * delay_ms"
  shows "\<exists>e. maybe_delay_from_query_or_json delay_ms st = Inl e \<and> cls e = OverflowError"
  using assms by (simp add: maybe_delay_from_query_or_json_def time_sleep_ms_def)

lemma maybe_delay_metrics:
  "maybe_delay_from_query_or_json delay_ms st = Inr st2 \<Longrightarrow> METRICS st2 = METRICS st"
  by (auto simp add: maybe_delay_from_query_or_json_def time_sleep_ms_def sleep_def
        split: if_splits)

lemma token_metrics_mono: "metrics_a_le (METRICS st) (METRICS (snd (token req st)))"
  by (auto simp add: token_def metrics_a_le_def Let_def
        split: sum.splits prod.splits dest: maybe_delay_metrics)

lemma serve_a_metrics_mono: "metrics_a_le (METRICS st) (METRICS (snd (serve_a req st)))"
proof -
  have t: "metrics_a.requests_total (METRICS st) \<le> metrics_a.requests_total (METRICS (snd (token req st)))
     \<and> token_requests (METRICS st) \<le> token_requests (METRICS (snd (token req st)))"
    using token_metrics_mono [of st req] by (simp add: metrics_a_le_def)
  show ?thesis
    using t
    by (auto simp add: serve_a_def log_request_a_def log_json_def metrics_a_le_def Let_def
          split: prod.splits)
qed

text \<open>
  Claim C9. Handling a request, whatever the route, the body and the behaviour of the
  provider, and whether the view returns or raises, leaves every counter of \<open>METRICS\<close> at
  least as large as it was, in service B and in service A. Requests are handled one after
  the other here; interleavings of handler threads are outside this model.
\<close>

theorem counters_never_decrease:
  "metrics_b_le (METRICS sb) (METRICS (snd (serve_b provider uuid4 req sb)))
   \<and> metrics_a_le (METRICS sa) (METRICS (snd (serve_a req' sa)))"
  by (simp add: serve_b_metrics_mono serve_a_metrics_mono)

theorem counters_never_decrease_witness:
  "metrics_b_le (METRICS init_b)
     (METRICS (snd (serve_b flaky_provider ''0b1e5a2c-7c1d-4e0a-9f57-3a1f0c2d4e6b''
        (post_action (JObj [(''username'', JStr ''divya''), (''password'', JStr ''pass123'')])
           None) init_b)))
   \<and> metrics_a_le (METRICS init_a)
     (METRICS (snd (serve_a
        (post_token (JObj [(''username'', JInt 123), (''password'', JStr ''pass123'')]) None)
        init_a)))"
  using counters_never_decrease [where sb = init_b and provider = flaky_provider
      and ?uuid4.0 = "''0b1e5a2c-7c1d-4e0a-9f57-3a1f0c2d4e6b''"
      and req = "post_action (JObj [(''username'', JStr ''divya''),
                                     (''password'', JStr ''pass123'')]) None"
      and sa = init_a
      and req' = "post_token (JObj [(''username'', JInt 123), (''password'', JStr ''pass123'')])
                    None"]
  by simp

section \<open>The correlation identifier and the forwarded credentials\<close>

lemma for_attempts_posts:
  "\<exists>n. (todo \<noteq> [] \<longrightarrow> 1 \<le> n) \<and> n \<le> length todo
     \<and> post_headers (trace (snd (for_attempts provider url request_id payload enable_retry
                                      todo last_exc st)))
         = post_headers (trace st) @ replicate n request_id
     \<and> post_payloads (trace (snd (for_attempts provider url request_id payload enable_retry
                                       todo last_exc st)))
         = post_payloads (trace st) @ replicate n payload"
proof (induction todo arbitrary: last_exc st)
  case Nil
  show ?case by simp
next
  case (Cons attempt rest)
  have one: "\<exists>n. 1 \<le> n \<and> n \<le> Suc (length rest)
     \<and> post_headers (trace st @ [Post url request_id payload])
         = post_headers (trace st) @ replicate n request_id
     \<and> post_payloads (trace st @ [Post url request_id payload])
         = post_payloads (trace st) @ replicate n payload"
    by (rule exI [of _ 1]) (simp add: post_headers_append post_payloads_append)
  have more: "\<exists>n. 1 \<le> n \<and> n \<le> Suc (length rest)
     \<and> post_headers (trace (snd (for_attempts provider url request_id payload enable_retry
                                      rest (Some e) st2)))
         = post_headers (trace st) @ replicate n request_id
     \<and> post_payloads (trace (snd (for_attempts provider url request_id payload enable_retry
                                       rest (Some e) st2)))
         = post_payloads (trace st) @ replicate n payload"
    if h: "post_headers (trace st2) = post_headers (trace st) @ [request_id]"
      and p: "post_payloads (trace st2) = post_payloads (trace st) @ [payload]"
    for e st2
  proof -
    from Cons.IH [where last_exc = "Some e" and st = st2]
    obtain m where m: "m \<le> length rest"
      "post_headers (trace (snd (for_attempts provider url request_id payload enable_retry
                                      rest (Some e) st2)))
         = post_headers (trace st2) @ replicate m request_id"
      "post_payloads (trace (snd (for_attempts provider url request_id payload enable_retry
                                       rest (Some e) st2)))
         = post_payloads (trace st2) @ replicate m payload"
      by blast
    show ?thesis
      by (rule exI [of _ "Suc m"]) (simp add: m h p)
  qed
  show ?case
  proof (cases "try_body (provider attempt)")
    case (Inr result)
    with one show ?thesis by simp
  next
    case (Inl e)
    show ?thesis
    proof (cases "is_Timeout (cls e)")
      case True
      let ?st2 = "backoff enable_retry attempt
                (log_json ''ERROR''
                   [(''service'', JStr SERVICE_NAME), (''event'', JStr ''provider_call_failed''),
                    (''error'', JStr ''timeout''), (''timeout_secs'', JFloat (Finite TIMEOUT_SECS)),
                    (''attempt'', JInt (int attempt + 1)), (''request_id'', JStr request_id)]
                   (count_failure
                      (\<lambda>m. m\<lparr>provider_timeouts := provider_timeouts m + 1\<rparr>)
                      (st\<lparr>trace := trace st @ [Post url request_id payload]\<rparr>)))"
      have eq: "for_attempts provider url request_id payload enable_retry
            (attempt # rest) last_exc st
          = for_attempts provider url request_id payload enable_retry rest (Some e) ?st2"
        using Inl True by simp
      have "post_headers (trace ?st2) = post_headers (trace st) @ [request_id]"
        and "post_payloads (trace ?st2) = post_payloads (trace st) @ [payload]"
        by (simp_all add: effect_defs post_headers_append post_payloads_append)
      from more [OF this, of e] show ?thesis
        unfolding eq by simp
    next
      case False
      note nt = this
      show ?thesis
      proof (cases "is_ConnectionError (cls e)")
        case True
        let ?st2 = "backoff enable_retry attempt
                (log_json ''ERROR''
                   [(''service'', JStr SERVICE_NAME), (''event'', JStr ''provider_call_failed''),
                    (''error'', JStr ''connection_error''), (''details'', JStr (str e)),
                    (''attempt'', JInt (int attempt + 1)), (''request_id'', JStr request_id)]
                   (count_failure
                      (\<lambda>m. m\<lparr>provider_connection_errors := provider_connection_errors m + 1\<rparr>)
                      (st\<lparr>trace := trace st @ [Post url request_id payload]\<rparr>)))"
        have eq: "for_attempts provider url request_id payload enable_retry
              (attempt # rest) last_exc st
            = for_attempts provider url request_id payload enable_retry rest (Some e) ?st2"
          using Inl nt True by simp
        have "post_headers (trace ?st2) = post_headers (trace st) @ [request_id]"
          and "post_payloads (trace ?st2) = post_payloads (trace st) @ [payload]"
          by (simp_all add: effect_defs post_headers_append post_payloads_append)
        from more [OF this, of e] show ?thesis
          unfolding eq by simp
      next
        case False
        with nt Inl one show ?thesis
          by (cases "is_RequestException (cls e)")
             (simp_all add: effect_defs post_headers_append post_payloads_append Let_def)
      qed
    qed
  qed
qed

lemma call_provider_token_posts:
  "\<exists>n\<ge>1.
       post_headers (trace (snd (call_provider_token provider username password delay_ms
                                    request_id enable_retry st)))
         = post_headers (trace st) @ replicate n request_id
     \<and> post_payloads (trace (snd (call_provider_token provider username password delay_ms
                                    request_id enable_retry st)))
         = post_payloads (trace st) @ replicate n
             (JObj [(''username'', JStr username), (''password'', password),
                    (''delay_ms'', JInt delay_ms)])"
proof -
  have ne: "[0..<(if enable_retry then 2 else 1 :: nat)] \<noteq> []"
    by simp
  from for_attempts_posts [where todo = "[0..<(if enable_retry then 2 else 1 :: nat)]"
      and provider = provider and url = "SERVICE_A @ ''/token''" and request_id = request_id
      and payload = "JObj [(''username'', JStr username), (''password'', password),
                    (''delay_ms'', JInt delay_ms)]"
      and enable_retry = enable_retry and last_exc = None and st = st] ne
  show ?thesis
    unfolding call_provider_token_def Let_def by blast
qed


lemma respond_200:
  "respond result action request_id = Inr (body, 200)
   \<Longrightarrow> dict_get body ''request_id'' = Inr (JStr request_id)"
  by (cases result)
     (auto simp add: respond_def and_then_def split: if_splits sum.splits)

text \<open>
  Claim C7, as the code has it. When the inbound request to \<open>/protected-action\<close> carries a
  non-empty \<open>X-Request-ID\<close> header, that string is the \<open>X-Request-ID\<close> header of every
  outbound call of the run and the \<open>request_id\<close> of the 200 response; when the header is
  absent or empty, the freshly generated identifier is used in both places. A run whose
  body is read without an exception makes at least one outbound call.
\<close>

theorem request_id_is_propagated:
  assumes "x_request_id req = Some h \<and> h \<noteq> [] \<and> rid = h
         \<or> (x_request_id req = None \<or> x_request_id req = Some []) \<and> rid = uuid4"
  shows "case protected_action provider uuid4 req st of
           (resp, st') \<Rightarrow>
             (\<exists>n. post_headers (trace st') = post_headers (trace st) @ replicate n rid
                  \<and> (case parse_action (get_json req) of Inl e \<Rightarrow> n = 0 | Inr p \<Rightarrow> 1 \<le> n))
           \<and> (\<forall>body. resp = Inr (body, 200) \<longrightarrow> dict_get body ''request_id'' = Inr (JStr rid))"
proof -
  from assms have rid: "resolve_request_id (x_request_id req) uuid4 = rid"
    by (auto simp add: resolve_request_id_def)
  show ?thesis
  proof (cases "parse_action (get_json req)")
    case (Inl e)
    then show ?thesis
      by (simp add: protected_action_def)
  next
    case (Inr parsed)
    obtain username password action delay_ms enable_retry
      where p: "parsed = (username, password, action, delay_ms, enable_retry)"
      by (cases parsed) auto
    let ?st1 = "st\<lparr>METRICS := (METRICS st)\<lparr>protected_action_requests :=
                        protected_action_requests (METRICS st) + 1\<rparr>\<rparr>"
    let ?run = "call_provider_token provider username password delay_ms rid enable_retry ?st1"
    have pa: "protected_action provider uuid4 req st
        = (and_then (fst ?run) (\<lambda>result. respond result action rid), snd ?run)"
      using Inr p rid by (simp add: protected_action_def Let_def split: prod.splits)
    from call_provider_token_posts [where provider = provider and username = username
        and password = password and delay_ms = delay_ms and request_id = rid
        and enable_retry = enable_retry and st = ?st1]
    obtain n where n: "1 \<le> n"
      "post_headers (trace (snd ?run)) = post_headers (trace st) @ replicate n rid"
      by auto
    have ok: "\<forall>body. and_then (fst ?run) (\<lambda>result. respond result action rid) = Inr (body, 200)
           \<longrightarrow> dict_get body ''request_id'' = Inr (JStr rid)"
      by (auto simp add: and_then_def split: sum.splits dest: respond_200)
    show ?thesis
      unfolding pa using n ok Inr by auto
  qed
qed

theorem request_id_is_propagated_witness:
  "post_headers (trace (snd (protected_action accepting_provider fresh_uuid
       (post_action good_login (Some ''abc123'')) init_b))) = [''abc123'']
   \<and> fst (protected_action accepting_provider fresh_uuid
       (post_action good_login (Some ''abc123'')) init_b)
     = Inr (JObj [(''consumer'', JStr ''ok''), (''action'', JStr ''ping''),
                  (''user'', JStr ''divya''), (''token'', JStr ''token-divya''),
                  (''request_id'', JStr ''abc123'')], 200)"
proof -
  have h: "x_request_id (post_action good_login (Some ''abc123'')) = Some ''abc123''
           \<and> ''abc123'' \<noteq> [] \<and> ''abc123'' = ''abc123''
         \<or> (x_request_id (post_action good_login (Some ''abc123'')) = None
             \<or> x_request_id (post_action good_login (Some ''abc123'')) = Some [])
           \<and> ''abc123'' = fresh_uuid"
    by (simp add: post_action_def)
  have parsed: "parse_action good_login = Inr (''divya'', JStr ''pass123'', JStr ''ping'', 0, True)"
    by (simp add: parse_action_def good_login_def py_or_def and_then_def strip_def is_space_def
          int_or_zero_def)
  have v: "protected_action accepting_provider fresh_uuid
             (post_action good_login (Some ''abc123'')) init_b
     = (Inr (JObj [(''consumer'', JStr ''ok''), (''action'', JStr ''ping''),
                  (''user'', JStr ''divya''), (''token'', JStr ''token-divya''),
                  (''request_id'', JStr ''abc123'')], 200),
        \<lparr>METRICS = METRICS_b\<lparr>protected_action_requests := 1\<rparr>,
         trace = [Post (SERVICE_A @ ''/token'') ''abc123''
                    (JObj [(''username'', JStr ''divya''), (''password'', JStr ''pass123''),
                           (''delay_ms'', JInt 0)])]\<rparr>)"
    using parsed
    by (simp add: protected_action_def post_action_def resolve_request_id_def
          call_provider_token_def upt_0_2 accepting_provider_def success_response_def
          try_body_def raise_for_status_def r_json_def respond_def and_then_def init_b_def
          METRICS_b_def Let_def)
  from request_id_is_propagated [OF h, where provider = accepting_provider and st = init_b] v
  show ?thesis by simp
qed

text \<open>
  Claim C7 as stated fails for a header that is present and empty: \<open>or\<close> takes the empty
  string for false, so the outbound call and the response carry the generated identifier,
  not the header's string.
\<close>

theorem empty_request_id_header_is_replaced:
  "x_request_id (post_action good_login (Some [])) = Some []
   \<and> post_headers (trace (snd (protected_action accepting_provider fresh_uuid
        (post_action good_login (Some [])) init_b))) = [fresh_uuid]
   \<and> fst (protected_action accepting_provider fresh_uuid
        (post_action good_login (Some [])) init_b)
      = Inr (JObj [(''consumer'', JStr ''ok''), (''action'', JStr ''ping''),
                   (''user'', JStr ''divya''), (''token'', JStr ''token-divya''),
                   (''request_id'', JStr fresh_uuid)], 200)
   \<and> fresh_uuid \<noteq> []"
proof -
  have parsed: "parse_action good_login = Inr (''divya'', JStr ''pass123'', JStr ''ping'', 0, True)"
    by (simp add: parse_action_def good_login_def py_or_def and_then_def strip_def is_space_def
          int_or_zero_def)
  have v: "protected_action accepting_provider fresh_uuid
             (post_action good_login (Some [])) init_b
     = (Inr (JObj [(''consumer'', JStr ''ok''), (''action'', JStr ''ping''),
                  (''user'', JStr ''divya''), (''token'', JStr ''token-divya''),
                  (''request_id'', JStr fresh_uuid)], 200),
        \<lparr>METRICS = METRICS_b\<lparr>protected_action_requests := 1\<rparr>,
         trace = [Post (SERVICE_A @ ''/token'') fresh_uuid
                    (JObj [(''username'', JStr ''divya''), (''password'', JStr ''pass123''),
                           (''delay_ms'', JInt 0)])]\<rparr>)"
    using parsed
    by (simp add: protected_action_def post_action_def resolve_request_id_def
          call_provider_token_def upt_0_2 accepting_provider_def success_response_def
          try_body_def raise_for_status_def r_json_def respond_def and_then_def init_b_def
          METRICS_b_def Let_def)
  show ?thesis
    using v by (simp add: post_action_def fresh_uuid_def)
qed

lemma strip_Nil: "strip [] = []"
  by (simp add: strip_def)

lemma int_strip_Nil: "int_strip [] = []"
  by (simp add: int_strip_def)







text \<open>What \<open>int()\<close> refuses is a delay of zero, also where \<open>str.strip()\<close> would have dropped
  the character, and at 4301 digits; a delay beyond the clock's range makes the handler
  raise before it looks at the credentials.\<close>

lemma int_refuses_separator: "int_or_zero (JStr [CHR 0x1C, CHR ''1'', CHR ''2'']) = 0"
  by (simp add: int_or_zero_def int_of_str_def int_strip_def is_int_space_def is_digit_def
        max_str_digits_def)

lemma int_refuses_long: "int_or_zero (JStr (replicate 4301 (CHR ''7''))) = 0"
proof -
  have d: "is_digit (CHR ''7'')" and n: "\<not> is_int_space (CHR ''7'')"
    by (simp_all add: is_digit_def is_int_space_def)
  have r: "replicate 4301 (CHR ''7'') = CHR ''7'' # replicate 4300 (CHR ''7'')"
    by (simp add: replicate_Suc [symmetric] del: replicate_Suc)
  have "int_strip (replicate 4301 (CHR ''7'')) = replicate 4301 (CHR ''7'')"
    using n by (simp add: int_strip_def dropWhile_replicate)
  then show ?thesis
    using d by (simp add: int_or_zero_def int_of_str_def max_str_digits_def r)
qed

lemma token_raises_on_endless_delay:
  "\<exists>e. fst (token (post_token endless_login None) init_a) = Inl e \<and> cls e = OverflowError"
proof -
  have p: "parse_token (post_token endless_login None) = Inr (''divya'', JStr ''pass123'', 10 ^ 30)"
    by (simp add: parse_token_def post_token_def endless_login_def py_or_def and_then_def
          strip_def is_space_def str_or_None_def int_or_zero_def)
  have "(2::int) ^ 63 \<le> 1000000 * 10 ^ 30" by simp
  from maybe_delay_refuses [OF this, where st = "init_a\<lparr>METRICS := (METRICS init_a)
      \<lparr>token_requests := token_requests (METRICS init_a) + 1\<rparr>\<rparr>"]
  obtain e where "maybe_delay_from_query_or_json (10 ^ 30)
      (init_a\<lparr>METRICS := (METRICS init_a)
         \<lparr>token_requests := token_requests (METRICS init_a) + 1\<rparr>\<rparr>) = Inl e"
    and "cls e = OverflowError"
    by auto
  with p show ?thesis
    by (simp add: token_def Let_def)
qed

text \<open>
  Claim C8. The claim says that no malformed field makes \<open>protected_action\<close> refuse a
  request. A username that is a number does: \<open>.strip()\<close> raises \<open>AttributeError\<close> on it, and
  the request ends in a 500 response; so does a body that is a non-empty JSON array, at
  \<open>body.get\<close>. Unlike the delay, whose \<open>int()\<close> is guarded by \<open>try\<close>, these reads are not
  guarded.
\<close>

theorem numeric_username_is_not_coerced:
  "parse_action numeric_login = Inl (Exn AttributeError ''object has no attribute strip'')
   \<and> fst (protected_action accepting_provider fresh_uuid (post_action numeric_login None) init_b)
       = Inl (Exn AttributeError ''object has no attribute strip'')
   \<and> fst (serve_b accepting_provider fresh_uuid (post_action numeric_login None) init_b)
       = (JNull, 500)
   \<and> fst (serve_b accepting_provider fresh_uuid (post_action (JList [JInt 1]) None) init_b)
       = (JNull, 500)"
  by (simp add: serve_b_def protected_action_def parse_action_def post_action_def
        numeric_login_def py_or_def and_then_def finalize_def Let_def)

text \<open>The rest of what Claim C8 says about the fields holds where the reads do not raise:
  the defaults of action, delay and retry flag.\<close>

lemma parse_action_missing_body:
  "parse_action JNull = Inr ([], JStr [], JStr ''ping'', 0, True)"
  by (simp add: parse_action_def py_or_def and_then_def strip_Nil int_or_zero_def)

lemma py_int_falsy: "\<not> truthy d \<Longrightarrow> py_int d = Inr i \<Longrightarrow> i = 0"
  by (cases d) (auto simp add: trunc_def int_of_str_def int_strip_Nil)

lemma parse_action_defaults:
  assumes "py_or raw (JObj []) = JObj kvs"
    and "py_or (case map_of kvs ''username'' of None \<Rightarrow> JNull | Some v \<Rightarrow> v) (JStr []) = JStr u"
  shows "\<exists>password. parse_action raw
     = Inr (strip u, password,
            (case map_of kvs ''action'' of
               None \<Rightarrow> JStr ''ping''
             | Some a \<Rightarrow> if truthy a then a else JStr ''ping''),
            (case map_of kvs ''delay_ms'' of
               None \<Rightarrow> 0
             | Some d \<Rightarrow> (case py_int d of Inl e \<Rightarrow> 0 | Inr i \<Rightarrow> i)),
            (case map_of kvs ''retry'' of
               None \<Rightarrow> True
             | Some r \<Rightarrow> r = JNull \<or> truthy r))"
  using assms
  by (auto simp add: parse_action_def and_then_def py_or_def int_or_zero_def
        split: option.splits sum.splits dest: py_int_falsy)

end
